theory Spec2Isabelle
  imports Main
begin

section \<open>Python values handled by the key derivation\<close>

text \<open>
  \<^verbatim>\<open>custom_dispatcher.py\<close> defines \<^verbatim>\<open>ZFunctionCache._index_key(self, sig, codegen)\<close>.
  It inspects Python objects at run time: tuples, lists, compiled-function objects
  (instances of \<^verbatim>\<open>dispatcher.Dispatcher\<close>), their type descriptors (instances of
  \<^verbatim>\<open>types.Dispatcher\<close>), and anything else. The exceptions the code can raise are values
  of \<open>py_error\<close>.
\<close>

datatype py_error = AttributeError | TypeError | IndexError | KeyError | PicklingError

text \<open>A Python function object, read through \<^verbatim>\<open>__module__\<close> and \<^verbatim>\<open>__qualname__\<close> only.\<close>

record py_function =
  fn_module :: string
  fn_qualname :: string

text \<open>
  What \<^verbatim>\<open>typ.key\<close> is on an object: absent, present but not callable, or callable, in
  which case \<^verbatim>\<open>typ.key()\<close> returns an object whose \<^verbatim>\<open>py_func\<close> attribute is the given
  option (\<open>None\<close>: the returned object has no such attribute).
\<close>

datatype key_attr = NoKey | KeyNotCallable | KeyReturns "py_function option"

text \<open>
  The attributes \<^verbatim>\<open>_compute_custom_key\<close> reads on an object: \<open>py_func\<close> is \<open>Some f\<close>
  exactly when \<^verbatim>\<open>hasattr(typ, "py_func")\<close> holds.
\<close>

record introspect =
  py_func :: "py_function option"
  key_attr :: key_attr

text \<open>
  \<open>DispatcherObj n t a\<close> is an instance of \<^verbatim>\<open>dispatcher.Dispatcher\<close> with identity \<open>n\<close>,
  attribute \<^verbatim>\<open>_type\<close> equal to \<open>t\<close> and introspection \<open>a\<close>; \<open>DispatcherType n a\<close> is an
  instance of \<^verbatim>\<open>types.Dispatcher\<close>. The other type descriptors of the host compiler are
  \<open>TupleType ts\<close>, an instance of its container type \<^verbatim>\<open>types.Tuple\<close> with element types
  \<open>ts\<close> (not a Python tuple), and \<open>ScalarType n\<close>, a scalar type such as \<^verbatim>\<open>int64\<close>.
  \<open>PyOther n\<close> is any other object (a number, \<^verbatim>\<open>None\<close>, ...): it has no \<^verbatim>\<open>key\<close> attribute
  and is not subscriptable.
\<close>

datatype pyobj =
    PyTuple "pyobj list"
  | PyList "pyobj list"
  | PyStr string
  | DispatcherObj nat pyobj introspect
  | DispatcherType nat introspect
  | TupleType "pyobj list"
  | ScalarType nat
  | PyOther nat

datatype pyclass = types_Dispatcher | dispatcher_Dispatcher

fun isinstance :: "pyobj \<Rightarrow> pyclass \<Rightarrow> bool" where
  "isinstance (DispatcherType n a) types_Dispatcher = True"
| "isinstance (DispatcherObj n t a) dispatcher_Dispatcher = True"
| "isinstance x c = False"

text \<open>Python's \<^verbatim>\<open>any\<close> over the results of \<^verbatim>\<open>map\<close>.\<close>

primrec any_py :: "bool list \<Rightarrow> bool" where
  "any_py [] = False"
| "any_py (b # bs) = (b \<or> any_py bs)"

section \<open>The helpers nested in \<^verbatim>\<open>_index_key\<close>\<close>

text \<open>
  \<^verbatim>\<open>
  def _is_first_class_function(obj):
      if isinstance(obj, (tuple, list)):
          return any(map(_is_first_class_function, obj))
      elif isinstance(obj, dispatcher.Dispatcher):
          return _is_first_class_function(obj._type)
      return isinstance(obj, types.Dispatcher)
  \<close>
\<close>

fun is_first_class_function :: "pyobj \<Rightarrow> bool" where
  "is_first_class_function (PyTuple xs) = any_py (map is_first_class_function xs)"
| "is_first_class_function (PyList xs) = any_py (map is_first_class_function xs)"
| "is_first_class_function (DispatcherObj n t a) = is_first_class_function t"
| "is_first_class_function obj = isinstance obj types_Dispatcher"

text \<open>
  \<^verbatim>\<open>
  def _compute_custom_key(typ):
      if hasattr(typ, "py_func"):
          py_func = typ.py_func
      else:
          py_func = typ.key().py_func
      return (py_func.__module__, py_func.__qualname__)
  \<close>
  The two dispatcher classes carry the attributes given with the object. The other type
  descriptors have no \<^verbatim>\<open>py_func\<close> and a \<^verbatim>\<open>key\<close> that is a string or a tuple, which
  cannot be called. Every other object has neither attribute, so \<^verbatim>\<open>typ.key\<close> raises
  \<^verbatim>\<open>AttributeError\<close>.
\<close>

fun attrs :: "pyobj \<Rightarrow> introspect option" where
  "attrs (DispatcherObj n t a) = Some a"
| "attrs (DispatcherType n a) = Some a"
| "attrs (TupleType ts) = Some \<lparr>py_func = None, key_attr = KeyNotCallable\<rparr>"
| "attrs (ScalarType n) = Some \<lparr>py_func = None, key_attr = KeyNotCallable\<rparr>"
| "attrs x = None"

definition stable_identity :: "py_function \<Rightarrow> pyobj" where
  "stable_identity f = PyTuple [PyStr (fn_module f), PyStr (fn_qualname f)]"

definition compute_custom_key :: "pyobj \<Rightarrow> py_error + pyobj" where
  "compute_custom_key typ =
     (case attrs typ of
        None \<Rightarrow> Inl AttributeError
      | Some a \<Rightarrow>
          (case py_func a of
             Some f \<Rightarrow> Inr (stable_identity f)
           | None \<Rightarrow>
               (case key_attr a of
                  NoKey \<Rightarrow> Inl AttributeError
                | KeyNotCallable \<Rightarrow> Inl TypeError
                | KeyReturns None \<Rightarrow> Inl AttributeError
                | KeyReturns (Some f) \<Rightarrow> Inr (stable_identity f))))"

text \<open>
  \<^verbatim>\<open>
  def map_only(types, func, iterable):
      return tuple([func(i) if isinstance(i, types)
                    else (map_only(types, func, i) if isinstance(i, (tuple, list)) else i)
                    for i in iterable])
  \<close>
  \<open>map_only_elems\<close> is the list comprehension (elements left to right, the first
  exception ends it), \<open>map_only_elem\<close> its body, \<open>map_only\<close> the call.
\<close>

fun map_only :: "pyclass \<Rightarrow> (pyobj \<Rightarrow> py_error + pyobj) \<Rightarrow> pyobj list \<Rightarrow> py_error + pyobj"
  and map_only_elems ::
    "pyclass \<Rightarrow> (pyobj \<Rightarrow> py_error + pyobj) \<Rightarrow> pyobj list \<Rightarrow> py_error + pyobj list"
  and map_only_elem :: "pyclass \<Rightarrow> (pyobj \<Rightarrow> py_error + pyobj) \<Rightarrow> pyobj \<Rightarrow> py_error + pyobj"
  where
  "map_only cls func iterable =
     (case map_only_elems cls func iterable of
        Inl e \<Rightarrow> Inl e
      | Inr vs \<Rightarrow> Inr (PyTuple vs))"
| "map_only_elems cls func [] = Inr []"
| "map_only_elems cls func (i # rest) =
     (case map_only_elem cls func i of
        Inl e \<Rightarrow> Inl e
      | Inr v \<Rightarrow>
          (case map_only_elems cls func rest of
             Inl e \<Rightarrow> Inl e
           | Inr vs \<Rightarrow> Inr (v # vs)))"
| "map_only_elem cls func (PyTuple xs) =
     (if isinstance (PyTuple xs) cls then func (PyTuple xs) else map_only cls func xs)"
| "map_only_elem cls func (PyList xs) =
     (if isinstance (PyList xs) cls then func (PyList xs) else map_only cls func xs)"
| "map_only_elem cls func i = (if isinstance i cls then func i else Inr i)"

section \<open>The key derivation\<close>

text \<open>
  The collaborators the method calls and the repository does not define: the base class's
  \<^verbatim>\<open>FunctionCache._index_key\<close> (reached through \<^verbatim>\<open>super()\<close>), \<^verbatim>\<open>numba.core.serialize.dumps\<close>
  and \<^verbatim>\<open>hashlib.sha256(x).hexdigest()\<close>. They are parameters of the model. A key is a
  Python tuple, given by the list of its elements.
\<close>

type_synonym bytes = string

text \<open>
  The cache object: of \<^verbatim>\<open>self\<close> the method reads only \<^verbatim>\<open>self._py_func.__closure__\<close>, which
  is \<^verbatim>\<open>None\<close> or a tuple of cells; the field holds the cells' contents. The base method
  reads the same cells before this one does.
\<close>

record zfunction_cache =
  closure :: "pyobj list option"

record 'cg collaborators =
  super_index_key :: "zfunction_cache \<Rightarrow> pyobj list \<Rightarrow> 'cg \<Rightarrow> py_error + pyobj list"
  dumps :: "pyobj \<Rightarrow> py_error + bytes"
  hasher :: "bytes \<Rightarrow> string"

text \<open>
  \<^verbatim>\<open>x[0]\<close> on a Python object. A \<^verbatim>\<open>types.Tuple\<close> gives its first element type; the other
  type descriptors accept slices only and raise \<^verbatim>\<open>KeyError\<close>; a compiled-function object and
  any other object are not subscriptable.
\<close>

fun subscript0 :: "pyobj \<Rightarrow> py_error + pyobj" where
  "subscript0 (PyTuple []) = Inl IndexError"
| "subscript0 (PyTuple (x # xs)) = Inr x"
| "subscript0 (PyList []) = Inl IndexError"
| "subscript0 (PyList (x # xs)) = Inr x"
| "subscript0 (PyStr []) = Inl IndexError"
| "subscript0 (PyStr (c # cs)) = Inr (PyStr [c])"
| "subscript0 (TupleType []) = Inl IndexError"
| "subscript0 (TupleType (t # ts)) = Inr t"
| "subscript0 (DispatcherType n a) = Inl KeyError"
| "subscript0 (ScalarType n) = Inl KeyError"
| "subscript0 (DispatcherObj n t a) = Inl TypeError"
| "subscript0 (PyOther n) = Inl TypeError"

text \<open>\<^verbatim>\<open>key[-1][0]\<close> on a tuple \<^verbatim>\<open>key\<close>.\<close>

definition last_first :: "pyobj list \<Rightarrow> py_error + pyobj" where
  "last_first key = (if key = [] then Inl IndexError else subscript0 (last key))"

text \<open>
  Lines 77 to 79:
  \<^verbatim>\<open>
  if any(map(_is_first_class_function, sig)):
      sig = map_only(types.Dispatcher, _compute_custom_key, sig)
      key = (sig,) + key[1:]
  \<close>
\<close>

definition rewrite_signature :: "pyobj list \<Rightarrow> pyobj list \<Rightarrow> py_error + pyobj list" where
  "rewrite_signature sig key =
     (if any_py (map is_first_class_function sig) then
        (case map_only types_Dispatcher compute_custom_key sig of
           Inl e \<Rightarrow> Inl e
         | Inr sig' \<Rightarrow> Inr (sig' # drop 1 key))
      else Inr key)"

text \<open>
  Lines 81 to 88:
  \<^verbatim>\<open>
  cvars = ()
  if self._py_func.__closure__ is not None:
      cvars = tuple([x.cell_contents for x in self._py_func.__closure__])
      if any(map(_is_first_class_function, cvars)):
          cvars = map_only(dispatcher.Dispatcher, _compute_custom_key, cvars)
          cvarbytes = dumps(cvars)
          hasher = lambda x: hashlib.sha256(x).hexdigest()
          key = key[:-1] + (key[-1][0], hasher(cvarbytes))
  \<close>
\<close>

definition digest_closure ::
  "'cg collaborators \<Rightarrow> zfunction_cache \<Rightarrow> pyobj list \<Rightarrow> py_error + pyobj list" where
  "digest_closure env self key =
     (case closure self of
        None \<Rightarrow> Inr key
      | Some cvars \<Rightarrow>
          (if any_py (map is_first_class_function cvars) then
             (case map_only dispatcher_Dispatcher compute_custom_key cvars of
                Inl e \<Rightarrow> Inl e
              | Inr cvars' \<Rightarrow>
                  (case dumps env cvars' of
                     Inl e \<Rightarrow> Inl e
                   | Inr cvarbytes \<Rightarrow>
                       (case last_first key of
                          Inl e \<Rightarrow> Inl e
                        | Inr h \<Rightarrow> Inr (butlast key @ [h, PyStr (hasher env cvarbytes)]))))
           else Inr key))"

text \<open>\<^verbatim>\<open>ZFunctionCache._index_key(self, sig, codegen)\<close>: lines 76 to 89.\<close>

definition index_key ::
  "'cg collaborators \<Rightarrow> zfunction_cache \<Rightarrow> pyobj list \<Rightarrow> 'cg \<Rightarrow> py_error + pyobj list" where
  "index_key env self sig codegen =
     (case super_index_key env self sig codegen of
        Inl e \<Rightarrow> Inl e
      | Inr key0 \<Rightarrow>
          (case rewrite_signature sig key0 of
             Inl e \<Rightarrow> Inl e
           | Inr key1 \<Rightarrow> digest_closure env self key1))"

section \<open>Positions inside signatures and closures\<close>

text \<open>
  The properties below speak of a compiled-function reference \<^emph>\<open>anywhere\<close> in a signature
  or closure, and of \<^emph>\<open>the same position\<close> of two signatures. \<open>contains_reference\<close> says
  that an object is, or holds at some depth of Python tuples and lists, an instance of one
  of the two dispatcher classes. \<open>subscript_path x [i, j, ...]\<close> follows the subscripts
  \<^verbatim>\<open>x[i][j]...\<close> through Python tuples and lists only: it is \<open>None\<close> out of range and at
  any other object. A \<open>ctx\<close> is a structure of Python tuples and lists with one hole and
  \<open>plug c x\<close> fills the hole with \<open>x\<close>.
\<close>

fun contains_reference :: "pyobj \<Rightarrow> bool" where
  "contains_reference (PyTuple xs) = any_py (map contains_reference xs)"
| "contains_reference (PyList xs) = any_py (map contains_reference xs)"
| "contains_reference (DispatcherObj n t a) = True"
| "contains_reference (DispatcherType n a) = True"
| "contains_reference x = False"

fun subscript_path :: "pyobj \<Rightarrow> nat list \<Rightarrow> pyobj option" where
  "subscript_path x [] = Some x"
| "subscript_path (PyTuple xs) (i # p) =
     (if i < length xs then subscript_path (xs ! i) p else None)"
| "subscript_path (PyList xs) (i # p) =
     (if i < length xs then subscript_path (xs ! i) p else None)"
| "subscript_path x (i # p) = None"

datatype ctx =
    Hole
  | InTuple "pyobj list" ctx "pyobj list"
  | InList "pyobj list" ctx "pyobj list"

fun plug :: "ctx \<Rightarrow> pyobj \<Rightarrow> pyobj" where
  "plug Hole x = x"
| "plug (InTuple pre c post) x = PyTuple (pre @ plug c x # post)"
| "plug (InList pre c post) x = PyList (pre @ plug c x # post)"

text \<open>The subscripts that lead to the hole of a context.\<close>

fun path_of :: "ctx \<Rightarrow> nat list" where
  "path_of Hole = []"
| "path_of (InTuple pre c post) = length pre # path_of c"
| "path_of (InList pre c post) = length pre # path_of c"

section \<open>Example collaborators and objects\<close>

text \<open>
  Concrete inputs for the evaluated examples. \<open>example_env\<close> has a base key of the shape
  \<^verbatim>\<open>(sig, magic_tuple, (code_hash, closure_hash))\<close>, where the closure hash is the digest
  of the serialized cell contents (of the empty byte string without a closure), a stand-in
  for the serializer and a stand-in for the digest. \<open>square_type\<close> and \<open>square_type'\<close> describe
  two compiled instances of the function \<^verbatim>\<open>m.square\<close>, \<open>cube_type\<close> one of \<^verbatim>\<open>m.cube\<close>;
  \<open>square_obj\<close> is a compiled-function object whose \<^verbatim>\<open>_type\<close> is \<open>square_type\<close>;
  \<open>broken_type\<close> is a descriptor with neither \<^verbatim>\<open>py_func\<close> nor \<^verbatim>\<open>key\<close>.
\<close>

fun example_dumps :: "pyobj \<Rightarrow> bytes" where
  "example_dumps (PyTuple xs) = ''('' @ concat (map example_dumps xs) @ '')''"
| "example_dumps (PyList xs) = ''['' @ concat (map example_dumps xs) @ '']''"
| "example_dumps (PyStr s) = s @ '',''"
| "example_dumps (DispatcherObj n t a) = ''<obj>''"
| "example_dumps (DispatcherType n a) = ''<type>''"
| "example_dumps (TupleType ts) = ''<tuple>''"
| "example_dumps (ScalarType n) = ''<scalar>''"
| "example_dumps (PyOther n) = ''?''"

definition example_env :: "pyobj collaborators" where
  "example_env =
     \<lparr>super_index_key = (\<lambda>self sig codegen.
          Inr [PyTuple sig, codegen,
               PyTuple [PyStr ''c0de'',
                        PyStr (''#'' @ (case closure self of
                                          None \<Rightarrow> []
                                        | Some cvars \<Rightarrow> example_dumps (PyTuple cvars)))]]),
      dumps = (\<lambda>x. Inr (example_dumps x)),
      hasher = (\<lambda>b. ''#'' @ b)\<rparr>"

definition square_func :: py_function where
  "square_func = \<lparr>fn_module = ''m'', fn_qualname = ''square''\<rparr>"

definition cube_func :: py_function where
  "cube_func = \<lparr>fn_module = ''m'', fn_qualname = ''cube''\<rparr>"

definition square_type :: pyobj where
  "square_type = DispatcherType 1 \<lparr>py_func = None, key_attr = KeyReturns (Some square_func)\<rparr>"

definition square_type' :: pyobj where
  "square_type' = DispatcherType 2 \<lparr>py_func = None, key_attr = KeyReturns (Some square_func)\<rparr>"

definition cube_type :: pyobj where
  "cube_type = DispatcherType 3 \<lparr>py_func = None, key_attr = KeyReturns (Some cube_func)\<rparr>"

definition square_obj :: pyobj where
  "square_obj = DispatcherObj 1 square_type \<lparr>py_func = Some square_func, key_attr = NoKey\<rparr>"

definition broken_type :: pyobj where
  "broken_type = DispatcherType 4 \<lparr>py_func = None, key_attr = NoKey\<rparr>"

lemmas example_defs =
  example_env_def square_func_def cube_func_def square_type_def square_type'_def
  cube_type_def square_obj_def broken_type_def

section \<open>The scan and the rewriting, position by position\<close>

lemma any_py_map: "any_py (map f xs) = (\<exists>x\<in>set xs. f x)"
  by (induction xs) auto

text \<open>The scan has no false positive: it finds a reference only where one is.\<close>

lemma is_first_class_function_contains:
  "is_first_class_function x \<Longrightarrow> contains_reference x"
  by (induction x) (auto simp: any_py_map)

text \<open>The scan descends to every position reachable through tuples and lists.\<close>

lemma is_first_class_function_path:
  "subscript_path x p = Some d \<Longrightarrow> is_first_class_function d \<Longrightarrow> is_first_class_function x"
proof (induction p arbitrary: x)
  case Nil
  then show ?case by simp
next
  case (Cons i p)
  from Cons.prems(1) obtain xs where x: "x = PyTuple xs \<or> x = PyList xs"
    and i: "i < length xs" and sub: "subscript_path (xs ! i) p = Some d"
    by (cases x) (auto split: if_splits)
  from Cons.IH [OF sub Cons.prems(2)] i have "\<exists>y\<in>set xs. is_first_class_function y"
    using nth_mem by blast
  with x show ?case by (auto simp: any_py_map)
qed

lemma is_first_class_function_plug:
  "is_first_class_function (plug c x) = is_first_class_function (plug c y)"
  if "is_first_class_function x = is_first_class_function y"
  using that by (induction c) (auto simp: any_py_map)

lemma map_only_elems_nth:
  "map_only_elems cls f xs = Inr vs \<Longrightarrow>
     length vs = length xs \<and> (\<forall>i<length xs. map_only_elem cls f (xs ! i) = Inr (vs ! i))"
proof (induction xs arbitrary: vs)
  case Nil
  then show ?case by simp
next
  case (Cons x xs)
  then show ?case
    by (auto split: sum.splits simp: nth_Cons split: nat.splits)
qed

lemma map_only_Inr:
  "map_only cls f xs = Inr v \<Longrightarrow> \<exists>vs. v = PyTuple vs \<and> map_only_elems cls f xs = Inr vs"
  by (auto split: sum.splits)

text \<open>
  What \<open>map_only\<close> leaves at a position is what its comprehension body makes of the
  object found there, at any depth.
\<close>

lemma map_only_elem_path:
  "map_only_elem cls f x = Inr v \<Longrightarrow> subscript_path x p = Some d \<Longrightarrow>
     \<exists>w. map_only_elem cls f d = Inr w \<and> subscript_path v p = Some w"
proof (induction p arbitrary: x v)
  case Nil
  then show ?case by simp
next
  case (Cons i p)
  from Cons.prems(2) obtain xs where x: "x = PyTuple xs \<or> x = PyList xs"
    and i: "i < length xs" and sub: "subscript_path (xs ! i) p = Some d"
    by (cases x) (auto split: if_splits)
  from x Cons.prems(1) have "map_only cls f xs = Inr v"
    by (auto simp del: map_only.simps)
  then obtain vs where v: "v = PyTuple vs" and vs: "map_only_elems cls f xs = Inr vs"
    by (auto dest: map_only_Inr simp del: map_only.simps)
  from map_only_elems_nth [OF vs] i
  have len: "length vs = length xs" and el: "map_only_elem cls f (xs ! i) = Inr (vs ! i)"
    by auto
  from Cons.IH [OF el sub] obtain w where
    "map_only_elem cls f d = Inr w" "subscript_path (vs ! i) p = Some w"
    by auto
  with v len i show ?case by simp
qed

lemma map_only_path:
  "map_only cls f xs = Inr v \<Longrightarrow> subscript_path (PyTuple xs) p = Some d \<Longrightarrow>
     \<exists>w. map_only_elem cls f d = Inr w \<and> subscript_path v p = Some w"
  using map_only_elem_path [of cls f "PyTuple xs" v p d]
  by (simp del: map_only.simps)

lemma map_only_elems_append:
  "map_only_elems cls f (xs @ ys) =
     (case map_only_elems cls f xs of
        Inl e \<Rightarrow> Inl e
      | Inr vs \<Rightarrow> (case map_only_elems cls f ys of Inl e \<Rightarrow> Inl e | Inr ws \<Rightarrow> Inr (vs @ ws)))"
  by (induction xs) (auto split: sum.splits)

lemma map_only_elem_plug:
  "map_only_elem cls f (plug c x) = map_only_elem cls f (plug c y)"
  if "map_only_elem cls f x = map_only_elem cls f y"
  using that
  by (induction c) (auto simp: map_only_elems_append split: sum.splits)

section \<open>Signatures and closures without references\<close>

lemma rewrite_signature_skip:
  "\<not> any_py (map contains_reference sig) \<Longrightarrow> rewrite_signature sig key = Inr key"
  by (auto simp: rewrite_signature_def any_py_map dest: is_first_class_function_contains)

lemma digest_closure_skip:
  "\<forall>cvars. closure self = Some cvars \<longrightarrow> \<not> any_py (map contains_reference cvars)
   \<Longrightarrow> digest_closure env self key = Inr key"
  by (auto simp: digest_closure_def any_py_map split: option.splits
      dest: is_first_class_function_contains)

text \<open>
  C1, baseline equivalence. When the signature holds no instance of either dispatcher
  class at any depth of tuples and lists, and the closure cells (if the function has a
  closure) hold none either, \<^verbatim>\<open>ZFunctionCache._index_key(sig, codegen)\<close> returns exactly
  what the base class's \<^verbatim>\<open>_index_key(sig, codegen)\<close> returns, an error of the base method
  included.
\<close>

theorem baseline_equivalence:
  assumes "\<not> any_py (map contains_reference sig)"
    and "\<forall>cvars. closure self = Some cvars \<longrightarrow> \<not> any_py (map contains_reference cvars)"
  shows "index_key env self sig codegen = super_index_key env self sig codegen"
  using assms
  by (simp add: index_key_def rewrite_signature_skip digest_closure_skip split: sum.splits)

theorem baseline_equivalence_witness:
  "\<not> any_py (map contains_reference [PyOther 0, PyTuple [PyOther 1, PyList [PyStr ''s'']]])
   \<and> \<not> any_py (map contains_reference [PyOther 2, PyList [PyOther 3]])
   \<and> index_key example_env \<lparr>closure = Some [PyOther 2, PyList [PyOther 3]]\<rparr>
        [PyOther 0, PyTuple [PyOther 1, PyList [PyStr ''s'']]] (PyOther 9)
      = Inr [PyTuple [PyOther 0, PyTuple [PyOther 1, PyList [PyStr ''s'']]], PyOther 9,
             PyTuple [PyStr ''c0de'', PyStr ''#(?[?])'']]"
  using baseline_equivalence [of "[PyOther 0, PyTuple [PyOther 1, PyList [PyStr ''s'']]]"
      "\<lparr>closure = Some [PyOther 2, PyList [PyOther 3]]\<rparr>" example_env "PyOther 9"]
  by (simp add: example_env_def)

section \<open>Rewriting the signature\<close>

lemma compute_custom_key_Inr:
  "compute_custom_key x = Inr w \<Longrightarrow> \<exists>f. w = stable_identity f"
  by (auto simp: compute_custom_key_def split: option.splits key_attr.splits)

lemma scan_path:
  "subscript_path (PyTuple xs) p = Some d \<Longrightarrow> is_first_class_function d \<Longrightarrow>
     any_py (map is_first_class_function xs)"
  using is_first_class_function_path [of "PyTuple xs" p d] by simp

text \<open>
  The pair \<^verbatim>\<open>_compute_custom_key\<close> returns for a descriptor is made of the module path and
  the qualified name of the descriptor's own function: its \<^verbatim>\<open>py_func\<close> attribute when it
  has one, otherwise the \<^verbatim>\<open>py_func\<close> of what \<^verbatim>\<open>key()\<close> returns.
\<close>

lemma compute_custom_key_descriptor:
  assumes "compute_custom_key (DispatcherType n a) = Inr w"
  shows "\<exists>f. (py_func a = Some f \<or> py_func a = None \<and> key_attr a = KeyReturns (Some f))
           \<and> w = PyTuple [PyStr (fn_module f), PyStr (fn_qualname f)]"
  using assms
  by (auto simp: compute_custom_key_def stable_identity_def
      split: option.splits key_attr.splits)

lemma map_only_elem_leaf:
  assumes "\<not> isinstance x cls" and "\<forall>xs. x \<noteq> PyTuple xs \<and> x \<noteq> PyList xs"
  shows "map_only_elem cls f x = Inr x"
  using assms by (cases x) simp_all

lemma map_only_length:
  "map_only cls f xs = Inr v \<Longrightarrow> \<exists>ys. v = PyTuple ys \<and> length ys = length xs"
  using map_only_Inr [of cls f xs v] map_only_elems_nth [of cls f xs] by auto

text \<open>
  C2, signature rewrite. When the scan finds a reference in the signature and the closure
  holds none, the returned key is the base key with its first element replaced by the
  rewritten signature and every later element, the trailing hash element included, kept:
  the base key \<open>k0 # ks\<close> becomes \<open>PyTuple sig' # ks\<close>. The rewritten signature has as many
  elements as the signature, and position by position (at any depth of Python tuples and
  lists): where the signature has a \<^verbatim>\<open>types.Dispatcher\<close> descriptor it has the pair
  (module path, qualified name) of that descriptor's own function; where the signature
  has any other object that is not a tuple or list it has the same object; where the
  signature has a tuple or list it has a tuple of the same length.
\<close>

theorem signature_rewrite_preserves_tail:
  assumes "any_py (map is_first_class_function sig)"
    and "\<forall>cvars. closure self = Some cvars \<longrightarrow> \<not> any_py (map contains_reference cvars)"
    and "super_index_key env self sig codegen = Inr (k0 # ks)"
    and "index_key env self sig codegen = Inr key"
  shows "\<exists>sig'. key = PyTuple sig' # ks \<and> length sig' = length sig
     \<and> (\<forall>p n a. subscript_path (PyTuple sig) p = Some (DispatcherType n a) \<longrightarrow>
          (\<exists>f. (py_func a = Some f \<or> py_func a = None \<and> key_attr a = KeyReturns (Some f))
             \<and> subscript_path (PyTuple sig') p
                 = Some (PyTuple [PyStr (fn_module f), PyStr (fn_qualname f)])))
     \<and> (\<forall>p x. subscript_path (PyTuple sig) p = Some x \<and> \<not> isinstance x types_Dispatcher
            \<and> (\<forall>xs. x \<noteq> PyTuple xs \<and> x \<noteq> PyList xs) \<longrightarrow>
          subscript_path (PyTuple sig') p = Some x)
     \<and> (\<forall>p xs. subscript_path (PyTuple sig) p = Some (PyTuple xs)
              \<or> subscript_path (PyTuple sig) p = Some (PyList xs) \<longrightarrow>
          (\<exists>ys. subscript_path (PyTuple sig') p = Some (PyTuple ys) \<and> length ys = length xs))"
proof -
  let ?f = compute_custom_key
  from assms(3,4) have "\<exists>key1. rewrite_signature sig (k0 # ks) = Inr key1
      \<and> digest_closure env self key1 = Inr key"
    by (auto simp: index_key_def split: sum.splits)
  with assms(2) have rw: "rewrite_signature sig (k0 # ks) = Inr key"
    by (auto simp: digest_closure_skip)
  with assms(1) obtain v where
    m: "map_only types_Dispatcher ?f sig = Inr v" and key: "key = v # ks"
    by (auto simp: rewrite_signature_def split: sum.splits simp del: map_only.simps)
  from map_only_length [OF m] obtain sig' where
    v: "v = PyTuple sig'" and len: "length sig' = length sig"
    by blast
  note path = map_only_path [OF m [unfolded v]]
  have descr: "\<exists>f. (py_func a = Some f \<or> py_func a = None \<and> key_attr a = KeyReturns (Some f))
      \<and> subscript_path (PyTuple sig') p
          = Some (PyTuple [PyStr (fn_module f), PyStr (fn_qualname f)])"
    if "subscript_path (PyTuple sig) p = Some (DispatcherType n a)" for p n a
  proof -
    from path [OF that] obtain w where
      w: "?f (DispatcherType n a) = Inr w" "subscript_path (PyTuple sig') p = Some w"
      by auto
    from compute_custom_key_descriptor [OF w(1)] w(2) show ?thesis by auto
  qed
  have leaf: "subscript_path (PyTuple sig') p = Some x"
    if "subscript_path (PyTuple sig) p = Some x" "\<not> isinstance x types_Dispatcher"
      "\<forall>xs. x \<noteq> PyTuple xs \<and> x \<noteq> PyList xs" for p x
    using path [OF that(1)] map_only_elem_leaf [OF that(2,3), of ?f] by simp
  have cont: "\<exists>ys. subscript_path (PyTuple sig') p = Some (PyTuple ys) \<and> length ys = length xs"
    if "subscript_path (PyTuple sig) p = Some (PyTuple xs)
        \<or> subscript_path (PyTuple sig) p = Some (PyList xs)" for p xs
  proof -
    from that path obtain w where
      "map_only types_Dispatcher ?f xs = Inr w" "subscript_path (PyTuple sig') p = Some w"
      by (fastforce simp del: map_only.simps)
    with map_only_length show ?thesis by blast
  qed
  from key v len descr leaf cont show ?thesis by blast
qed

theorem signature_rewrite_preserves_tail_witness:
  "any_py (map is_first_class_function [ScalarType 0, PyList [square_type]])
   \<and> \<not> any_py (map contains_reference [PyOther 5])
   \<and> super_index_key example_env \<lparr>closure = Some [PyOther 5]\<rparr>
        [ScalarType 0, PyList [square_type]] (PyOther 9)
       = Inr [PyTuple [ScalarType 0, PyList [square_type]], PyOther 9,
              PyTuple [PyStr ''c0de'', PyStr ''#(?)'']]
   \<and> index_key example_env \<lparr>closure = Some [PyOther 5]\<rparr>
        [ScalarType 0, PyList [square_type]] (PyOther 9)
       = Inr [PyTuple [ScalarType 0, PyTuple [PyTuple [PyStr ''m'', PyStr ''square'']]], PyOther 9,
              PyTuple [PyStr ''c0de'', PyStr ''#(?)'']]
   \<and> (\<exists>sig'. [PyTuple [ScalarType 0, PyTuple [PyTuple [PyStr ''m'', PyStr ''square'']]], PyOther 9,
              PyTuple [PyStr ''c0de'', PyStr ''#(?)'']]
             = PyTuple sig' # [PyOther 9, PyTuple [PyStr ''c0de'', PyStr ''#(?)'']]
         \<and> length sig' = 2
         \<and> subscript_path (PyTuple sig') [1, 0] = Some (PyTuple [PyStr ''m'', PyStr ''square''])
         \<and> subscript_path (PyTuple sig') [0] = Some (ScalarType 0)
         \<and> (\<exists>ys. subscript_path (PyTuple sig') [1] = Some (PyTuple ys) \<and> length ys = 1))"
proof -
  let ?a = "\<lparr>py_func = None, key_attr = KeyReturns (Some square_func)\<rparr>"
  let ?sig = "[ScalarType 0, PyList [DispatcherType 1 ?a]]"
  let ?self = "\<lparr>closure = Some [PyOther 5]\<rparr>"
  let ?tail = "[PyOther 9, PyTuple [PyStr ''c0de'', PyStr ''#(?)'']]"
  let ?key = "PyTuple [ScalarType 0, PyTuple [PyTuple [PyStr ''m'', PyStr ''square'']]] # ?tail"
  have h1: "any_py (map is_first_class_function ?sig)"
    by simp
  have h2: "\<forall>cvars. closure ?self = Some cvars \<longrightarrow> \<not> any_py (map contains_reference cvars)"
    by simp
  have h3: "super_index_key example_env ?self ?sig (PyOther 9) = Inr (PyTuple ?sig # ?tail)"
    by (simp add: example_env_def)
  have h4: "index_key example_env ?self ?sig (PyOther 9) = Inr ?key"
    by (simp add: example_env_def square_func_def index_key_def rewrite_signature_def
        digest_closure_def compute_custom_key_def stable_identity_def)
  from signature_rewrite_preserves_tail [OF h1 h2 h3 h4] obtain sig' where
    k: "?key = PyTuple sig' # ?tail" and len: "length sig' = length ?sig"
    and D: "\<forall>p n a. subscript_path (PyTuple ?sig) p = Some (DispatcherType n a) \<longrightarrow>
          (\<exists>f. (py_func a = Some f \<or> py_func a = None \<and> key_attr a = KeyReturns (Some f))
             \<and> subscript_path (PyTuple sig') p
                 = Some (PyTuple [PyStr (fn_module f), PyStr (fn_qualname f)]))"
    and L: "\<forall>p x. subscript_path (PyTuple ?sig) p = Some x \<and> \<not> isinstance x types_Dispatcher
            \<and> (\<forall>xs. x \<noteq> PyTuple xs \<and> x \<noteq> PyList xs) \<longrightarrow>
          subscript_path (PyTuple sig') p = Some x"
    and C: "\<forall>p xs. subscript_path (PyTuple ?sig) p = Some (PyTuple xs)
              \<or> subscript_path (PyTuple ?sig) p = Some (PyList xs) \<longrightarrow>
          (\<exists>ys. subscript_path (PyTuple sig') p = Some (PyTuple ys) \<and> length ys = length xs)"
    by (elim exE conjE)
  from D [rule_format, of "[1, 0]" 1 ?a]
  have d: "subscript_path (PyTuple sig') [1, 0] = Some (PyTuple [PyStr ''m'', PyStr ''square''])"
    by (auto simp: square_func_def)
  from L [rule_format, of "[0]" "ScalarType 0"]
  have l: "subscript_path (PyTuple sig') [0] = Some (ScalarType 0)"
    by simp
  from C [rule_format, of "[1]" "[DispatcherType 1 ?a]"]
  have c: "\<exists>ys. subscript_path (PyTuple sig') [1] = Some (PyTuple ys) \<and> length ys = 1"
    by simp
  from k len d l c have "\<exists>sig'. ?key = PyTuple sig' # ?tail \<and> length sig' = 2
      \<and> subscript_path (PyTuple sig') [1, 0] = Some (PyTuple [PyStr ''m'', PyStr ''square''])
      \<and> subscript_path (PyTuple sig') [0] = Some (ScalarType 0)
      \<and> (\<exists>ys. subscript_path (PyTuple sig') [1] = Some (PyTuple ys) \<and> length ys = 1)"
    by (intro exI [of _ sig']) simp
  with h1 h3 h4 show ?thesis
    unfolding square_type_def by simp
qed

text \<open>
  C7, malformed descriptors. A \<^verbatim>\<open>types.Dispatcher\<close> descriptor in the signature (at any
  depth of tuples and lists) that has no \<^verbatim>\<open>py_func\<close> attribute and whose \<^verbatim>\<open>key()\<close> does
  not give an object with one makes \<^verbatim>\<open>_index_key\<close> raise: no key is returned, whatever
  the collaborators do.
\<close>

theorem malformed_descriptor_raises:
  assumes "subscript_path (PyTuple sig) p = Some (DispatcherType n a)"
    and "py_func a = None"
    and "\<forall>f. key_attr a \<noteq> KeyReturns (Some f)"
  shows "isl (index_key env self sig codegen)"
proof -
  have bad: "isl (compute_custom_key (DispatcherType n a))"
    using assms(2,3)
    by (auto simp: compute_custom_key_def split: key_attr.splits option.splits)
  have scan: "any_py (map is_first_class_function sig)"
    using scan_path [OF assms(1)] by simp
  have "isl (map_only types_Dispatcher compute_custom_key sig)"
  proof (rule ccontr)
    assume "\<not> isl (map_only types_Dispatcher compute_custom_key sig)"
    then obtain v where "map_only types_Dispatcher compute_custom_key sig = Inr v"
      by (cases "map_only types_Dispatcher compute_custom_key sig") auto
    from map_only_path [OF this assms(1)] bad show False by auto
  qed
  then obtain e where "map_only types_Dispatcher compute_custom_key sig = Inl e"
    by (cases "map_only types_Dispatcher compute_custom_key sig") auto
  with scan have "rewrite_signature sig key = Inl e" for key
    by (simp add: rewrite_signature_def del: map_only.simps)
  then show ?thesis
    by (simp add: index_key_def split: sum.splits)
qed

theorem malformed_descriptor_raises_witness:
  "subscript_path (PyTuple [PyOther 0, PyTuple [broken_type]]) [1, 0] = Some broken_type
   \<and> index_key example_env \<lparr>closure = None\<rparr> [PyOther 0, PyTuple [broken_type]] (PyOther 9)
       = Inl AttributeError"
proof -
  have h1: "subscript_path (PyTuple [PyOther 0, PyTuple [broken_type]]) [1, 0]
      = Some (DispatcherType 4 \<lparr>py_func = None, key_attr = NoKey\<rparr>)"
    by (simp add: broken_type_def)
  have h2: "py_func \<lparr>py_func = None, key_attr = NoKey\<rparr> = None" by simp
  have h3: "\<forall>f. key_attr \<lparr>py_func = None, key_attr = NoKey\<rparr> \<noteq> KeyReturns (Some f)" by simp
  from malformed_descriptor_raises [OF h1 h2 h3, of example_env "\<lparr>closure = None\<rparr>" "PyOther 9"]
  have "isl (index_key example_env \<lparr>closure = None\<rparr> [PyOther 0, PyTuple [broken_type]] (PyOther 9))" .
  moreover have "index_key example_env \<lparr>closure = None\<rparr> [PyOther 0, PyTuple [broken_type]] (PyOther 9)
       = Inl AttributeError"
    by (simp add: example_defs index_key_def rewrite_signature_def compute_custom_key_def)
  ultimately show ?thesis using h1 by (simp add: broken_type_def)
qed

section \<open>Substituting one reference for another\<close>

lemma subscript_path_plug: "subscript_path (plug c x) (path_of c) = Some x"
  by (induction c) auto

lemma is_first_class_function_plug_True:
  "is_first_class_function x \<Longrightarrow> is_first_class_function (plug c x)"
  using is_first_class_function_path [OF subscript_path_plug] .

lemma scan_plug:
  "is_first_class_function x \<Longrightarrow> any_py (map is_first_class_function (pre @ plug c x # post))"
  using is_first_class_function_plug_True [of x "InTuple pre c post"] by simp

lemma map_only_plug:
  "map_only cls f (pre @ plug c x # post) = map_only cls f (pre @ plug c y # post)"
  if "map_only_elem cls f x = map_only_elem cls f y"
  using map_only_elem_plug [OF that, of "InTuple pre c post"]
  by (simp del: map_only.simps)

lemma rewrite_signature_cong:
  assumes "any_py (map is_first_class_function sig1)"
    and "any_py (map is_first_class_function sig2)"
    and "map_only types_Dispatcher compute_custom_key sig1
       = map_only types_Dispatcher compute_custom_key sig2"
    and "drop 1 key1 = drop 1 key2"
  shows "rewrite_signature sig1 key1 = rewrite_signature sig2 key2"
  using assms
  by (auto simp: rewrite_signature_def simp del: map_only.simps split: sum.splits)

text \<open>
  C4, identity substitution determinism. Take two \<^verbatim>\<open>types.Dispatcher\<close> descriptors, of any
  two compiled instances, whose functions have the same module path and the same qualified
  name, and put each at the same position (at any depth of tuples and lists) of an
  otherwise identical signature. Where the base keys of the two signatures agree beyond
  their leading element, \<^verbatim>\<open>_index_key\<close> returns the same result for both signatures.
\<close>

theorem identity_substitution_determinism:
  assumes "compute_custom_key (DispatcherType n a) = Inr (stable_identity f)"
    and "compute_custom_key (DispatcherType m b) = Inr (stable_identity g)"
    and "fn_module f = fn_module g"
    and "fn_qualname f = fn_qualname g"
    and "super_index_key env self (pre @ plug c (DispatcherType n a) # post) codegen = Inr key_a"
    and "super_index_key env self (pre @ plug c (DispatcherType m b) # post) codegen = Inr key_b"
    and "drop 1 key_a = drop 1 key_b"
  shows "index_key env self (pre @ plug c (DispatcherType n a) # post) codegen
       = index_key env self (pre @ plug c (DispatcherType m b) # post) codegen"
proof -
  let ?sa = "pre @ plug c (DispatcherType n a) # post"
  let ?sb = "pre @ plug c (DispatcherType m b) # post"
  have "stable_identity f = stable_identity g"
    using assms(3,4) by (simp add: stable_identity_def)
  with assms(1,2) have "map_only_elem types_Dispatcher compute_custom_key (DispatcherType n a)
      = map_only_elem types_Dispatcher compute_custom_key (DispatcherType m b)"
    by simp
  then have maps: "map_only types_Dispatcher compute_custom_key ?sa
      = map_only types_Dispatcher compute_custom_key ?sb"
    by (rule map_only_plug)
  have scan: "any_py (map is_first_class_function ?sa)"
    "any_py (map is_first_class_function ?sb)"
    by (rule scan_plug, simp)+
  have "rewrite_signature ?sa key_a = rewrite_signature ?sb key_b"
    by (rule rewrite_signature_cong [OF scan maps assms(7)])
  with assms(5,6) show ?thesis
    by (simp add: index_key_def)
qed

theorem identity_substitution_determinism_witness:
  "compute_custom_key square_type = Inr (stable_identity square_func)
   \<and> compute_custom_key square_type' = Inr (stable_identity square_func)
   \<and> square_type \<noteq> square_type'
   \<and> index_key example_env \<lparr>closure = None\<rparr>
        ([PyOther 0] @ plug (InList [] Hole [PyOther 1]) square_type # [PyOther 2]) (PyOther 9)
     = index_key example_env \<lparr>closure = None\<rparr>
        ([PyOther 0] @ plug (InList [] Hole [PyOther 1]) square_type' # [PyOther 2]) (PyOther 9)
   \<and> index_key example_env \<lparr>closure = None\<rparr>
        ([PyOther 0] @ plug (InList [] Hole [PyOther 1]) square_type # [PyOther 2]) (PyOther 9)
     = Inr [PyTuple [PyOther 0, PyTuple [stable_identity square_func, PyOther 1], PyOther 2],
            PyOther 9, PyTuple [PyStr ''c0de'', PyStr ''#'']]"
proof -
  let ?a = "\<lparr>py_func = None, key_attr = KeyReturns (Some square_func)\<rparr>"
  have h1: "compute_custom_key (DispatcherType 1 ?a) = Inr (stable_identity square_func)"
    and h2: "compute_custom_key (DispatcherType 2 ?a) = Inr (stable_identity square_func)"
    by (simp_all add: compute_custom_key_def)
  have h5: "super_index_key example_env \<lparr>closure = None\<rparr>
        ([PyOther 0] @ plug (InList [] Hole [PyOther 1]) (DispatcherType 1 ?a) # [PyOther 2]) (PyOther 9)
      = Inr [PyTuple [PyOther 0, PyList [DispatcherType 1 ?a, PyOther 1], PyOther 2], PyOther 9,
             PyTuple [PyStr ''c0de'', PyStr ''#'']]"
    and h6: "super_index_key example_env \<lparr>closure = None\<rparr>
        ([PyOther 0] @ plug (InList [] Hole [PyOther 1]) (DispatcherType 2 ?a) # [PyOther 2]) (PyOther 9)
      = Inr [PyTuple [PyOther 0, PyList [DispatcherType 2 ?a, PyOther 1], PyOther 2], PyOther 9,
             PyTuple [PyStr ''c0de'', PyStr ''#'']]"
    by (simp_all add: example_env_def)
  have eq: "index_key example_env \<lparr>closure = None\<rparr>
        ([PyOther 0] @ plug (InList [] Hole [PyOther 1]) (DispatcherType 1 ?a) # [PyOther 2]) (PyOther 9)
     = index_key example_env \<lparr>closure = None\<rparr>
        ([PyOther 0] @ plug (InList [] Hole [PyOther 1]) (DispatcherType 2 ?a) # [PyOther 2]) (PyOther 9)"
    by (rule identity_substitution_determinism [OF h1 h2 refl refl h5 h6]) simp
  have val: "index_key example_env \<lparr>closure = None\<rparr>
        ([PyOther 0] @ plug (InList [] Hole [PyOther 1]) (DispatcherType 1 ?a) # [PyOther 2]) (PyOther 9)
     = Inr [PyTuple [PyOther 0, PyTuple [stable_identity square_func, PyOther 1], PyOther 2],
            PyOther 9, PyTuple [PyStr ''c0de'', PyStr ''#'']]"
    by (simp add: example_env_def index_key_def rewrite_signature_def digest_closure_def
        compute_custom_key_def)
  from h1 h2 eq val show ?thesis
    unfolding square_type_def square_type'_def by simp
qed

text \<open>
  With a base key of at least two elements, the closure step leaves the leading element
  of the key alone.
\<close>

lemma digest_closure_hd:
  "digest_closure env self (s # k # ks) = Inr key \<Longrightarrow> hd key = s"
  by (auto simp: digest_closure_def split: option.splits if_splits sum.splits)

lemma index_key_hd:
  assumes "index_key env self sig codegen = Inr key"
    and "super_index_key env self sig codegen = Inr key0"
    and "2 \<le> length key0"
    and "any_py (map is_first_class_function sig)"
  shows "map_only types_Dispatcher compute_custom_key sig = Inr (hd key)"
proof -
  from assms(3) obtain k0 k1 ks where key0: "key0 = k0 # k1 # ks"
    by (cases key0; cases "tl key0") auto
  from assms(1,2,4) obtain s where
    s: "map_only types_Dispatcher compute_custom_key sig = Inr s"
    and d: "digest_closure env self (s # drop 1 key0) = Inr key"
    by (auto simp: index_key_def rewrite_signature_def split: sum.splits simp del: map_only.simps)
  from d key0 have "hd key = s"
    by (auto dest: digest_closure_hd)
  with s show ?thesis by simp
qed

text \<open>
  C5, discrimination. Take two \<^verbatim>\<open>types.Dispatcher\<close> descriptors whose functions differ in
  module path or in qualified name, and put each at the same position of an otherwise
  identical signature. Where the base key has its leading signature element and at least
  one more element, the two keys \<^verbatim>\<open>_index_key\<close> returns are different.
\<close>

theorem discrimination:
  assumes "compute_custom_key (DispatcherType n a) = Inr (stable_identity f)"
    and "compute_custom_key (DispatcherType m b) = Inr (stable_identity g)"
    and "fn_module f \<noteq> fn_module g \<or> fn_qualname f \<noteq> fn_qualname g"
    and "super_index_key env self (pre @ plug c (DispatcherType n a) # post) codegen = Inr base_a"
    and "super_index_key env self (pre @ plug c (DispatcherType m b) # post) codegen = Inr base_b"
    and "2 \<le> length base_a" and "2 \<le> length base_b"
    and "index_key env self (pre @ plug c (DispatcherType n a) # post) codegen = Inr key_a"
    and "index_key env self (pre @ plug c (DispatcherType m b) # post) codegen = Inr key_b"
  shows "key_a \<noteq> key_b"
proof
  assume eq: "key_a = key_b"
  let ?sa = "pre @ plug c (DispatcherType n a) # post"
  let ?sb = "pre @ plug c (DispatcherType m b) # post"
  let ?p = "path_of (InTuple pre c post)"
  have scan: "any_py (map is_first_class_function ?sa)" "any_py (map is_first_class_function ?sb)"
    by (rule scan_plug, simp)+
  have ma: "map_only types_Dispatcher compute_custom_key ?sa = Inr (hd key_a)"
    by (rule index_key_hd [OF assms(8,4,6) scan(1)])
  have mb: "map_only types_Dispatcher compute_custom_key ?sb = Inr (hd key_b)"
    by (rule index_key_hd [OF assms(9,5,7) scan(2)])
  have pa: "subscript_path (PyTuple ?sa) ?p = Some (DispatcherType n a)"
    using subscript_path_plug [of "InTuple pre c post"] by simp
  have pb: "subscript_path (PyTuple ?sb) ?p = Some (DispatcherType m b)"
    using subscript_path_plug [of "InTuple pre c post"] by simp
  from map_only_path [OF ma pa] assms(1)
  have "subscript_path (hd key_a) ?p = Some (stable_identity f)" by simp
  moreover from map_only_path [OF mb pb] assms(2)
  have "subscript_path (hd key_b) ?p = Some (stable_identity g)" by simp
  ultimately have "stable_identity f = stable_identity g"
    using eq by simp
  with assms(3) show False
    by (simp add: stable_identity_def)
qed

theorem discrimination_witness:
  "compute_custom_key square_type = Inr (stable_identity square_func)
   \<and> compute_custom_key cube_type = Inr (stable_identity cube_func)
   \<and> fn_qualname square_func \<noteq> fn_qualname cube_func
   \<and> index_key example_env \<lparr>closure = Some [square_obj]\<rparr>
        ([PyOther 0] @ plug (InTuple [PyOther 1] Hole []) square_type # []) (PyOther 9)
     = Inr [PyTuple [PyOther 0, PyTuple [PyOther 1, PyTuple [PyStr ''m'', PyStr ''square'']]],
            PyOther 9, PyStr ''c0de'', PyStr ''#((m,square,))'']
   \<and> index_key example_env \<lparr>closure = Some [square_obj]\<rparr>
        ([PyOther 0] @ plug (InTuple [PyOther 1] Hole []) cube_type # []) (PyOther 9)
     = Inr [PyTuple [PyOther 0, PyTuple [PyOther 1, PyTuple [PyStr ''m'', PyStr ''cube'']]],
            PyOther 9, PyStr ''c0de'', PyStr ''#((m,square,))'']
   \<and> [PyTuple [PyOther 0, PyTuple [PyOther 1, PyTuple [PyStr ''m'', PyStr ''square'']]],
            PyOther 9, PyStr ''c0de'', PyStr ''#((m,square,))'']
     \<noteq> [PyTuple [PyOther 0, PyTuple [PyOther 1, PyTuple [PyStr ''m'', PyStr ''cube'']]],
            PyOther 9, PyStr ''c0de'', PyStr ''#((m,square,))'']"
proof -
  let ?a = "\<lparr>py_func = None, key_attr = KeyReturns (Some square_func)\<rparr>"
  let ?b = "\<lparr>py_func = None, key_attr = KeyReturns (Some cube_func)\<rparr>"
  let ?self = "\<lparr>closure = Some [square_obj]\<rparr>"
  let ?sa = "[PyOther 0] @ plug (InTuple [PyOther 1] Hole []) (DispatcherType 1 ?a) # []"
  let ?sb = "[PyOther 0] @ plug (InTuple [PyOther 1] Hole []) (DispatcherType 3 ?b) # []"
  let ?ka = "[PyTuple [PyOther 0, PyTuple [PyOther 1, PyTuple [PyStr ''m'', PyStr ''square'']]],
            PyOther 9, PyStr ''c0de'', PyStr ''#((m,square,))'']"
  let ?kb = "[PyTuple [PyOther 0, PyTuple [PyOther 1, PyTuple [PyStr ''m'', PyStr ''cube'']]],
            PyOther 9, PyStr ''c0de'', PyStr ''#((m,square,))'']"
  have h1: "compute_custom_key (DispatcherType 1 ?a) = Inr (stable_identity square_func)"
    and h2: "compute_custom_key (DispatcherType 3 ?b) = Inr (stable_identity cube_func)"
    by (simp_all add: compute_custom_key_def)
  have h3: "fn_module square_func \<noteq> fn_module cube_func
      \<or> fn_qualname square_func \<noteq> fn_qualname cube_func"
    by (simp add: square_func_def cube_func_def)
  have h4: "super_index_key example_env ?self ?sa (PyOther 9)
      = Inr [PyTuple ?sa, PyOther 9, PyTuple [PyStr ''c0de'', PyStr ''#(<obj>)'']]"
    and h5: "super_index_key example_env ?self ?sb (PyOther 9)
      = Inr [PyTuple ?sb, PyOther 9, PyTuple [PyStr ''c0de'', PyStr ''#(<obj>)'']]"
    by (simp_all add: example_env_def square_obj_def)
  have h8: "index_key example_env ?self ?sa (PyOther 9) = Inr ?ka"
    and h9: "index_key example_env ?self ?sb (PyOther 9) = Inr ?kb"
    by (simp_all add: example_defs index_key_def rewrite_signature_def digest_closure_def
        compute_custom_key_def stable_identity_def last_first_def)
  have "?ka \<noteq> ?kb"
    by (rule discrimination [OF h1 h2 h3 h4 h5 _ _ h8 h9]) simp_all
  with h1 h2 h8 h9 show ?thesis
    unfolding square_type_def cube_type_def
    by (simp add: square_func_def cube_func_def)
qed

section \<open>The closure step\<close>

text \<open>
  Whenever the closure step runs and returns, the key it returns is one element longer
  than the key it was given, and ends in the digest string: \<^verbatim>\<open>key[:-1] + (a, b)\<close>
  concatenates the two components to the shortened key.
\<close>

lemma digest_closure_length:
  assumes "closure self = Some cvars"
    and "any_py (map is_first_class_function cvars)"
    and "digest_closure env self key = Inr key'"
  shows "length key' = length key + 1 \<and> (\<exists>b. last key' = PyStr (hasher env b))"
proof -
  from assms obtain h b where "last_first key = Inr h"
    and key': "key' = butlast key @ [h, PyStr (hasher env b)]"
    by (auto simp: digest_closure_def split: sum.splits simp del: map_only.simps)
  then have "key \<noteq> []"
    by (auto simp: last_first_def)
  with key' show ?thesis by auto
qed

text \<open>
  C3, closure digest step, at the example of the specification: signature
  \<^verbatim>\<open>(int64, square)\<close> and a closure holding the compiled function \<^verbatim>\<open>square\<close>. The base key
  has three elements and ends in the pair \<^verbatim>\<open>(code hash, closure hash)\<close>. The key returned
  has four elements: the code hash and the digest of the serialized closure
  \<^verbatim>\<open>(("m", "square"),)\<close> are its last two elements, not one element that is a pair.
\<close>

theorem closure_digest_example:
  "super_index_key example_env \<lparr>closure = Some [square_obj]\<rparr> [ScalarType 0, square_type] (PyOther 9)
     = Inr [PyTuple [ScalarType 0, square_type], PyOther 9, PyTuple [PyStr ''c0de'', PyStr ''#(<obj>)'']]
   \<and> index_key example_env \<lparr>closure = Some [square_obj]\<rparr> [ScalarType 0, square_type] (PyOther 9)
     = Inr [PyTuple [ScalarType 0, PyTuple [PyStr ''m'', PyStr ''square'']], PyOther 9,
            PyStr ''c0de'', PyStr ''#((m,square,))'']"
  by (simp add: example_defs index_key_def rewrite_signature_def digest_closure_def
      compute_custom_key_def stable_identity_def last_first_def)

section \<open>Lists and tuples\<close>

text \<open>Nothing that \<open>map_only\<close> returns holds a list at a position reached by subscripts.\<close>

lemma map_only_elem_no_list:
  "map_only_elem cls compute_custom_key x = Inr v \<Longrightarrow> subscript_path v p = Some z \<Longrightarrow>
     z \<noteq> PyList zs"
proof (induction p arbitrary: x v)
  case Nil
  then show ?case
    by (cases x)
      (auto split: if_splits sum.splits dest!: compute_custom_key_Inr
        simp: stable_identity_def)
next
  case (Cons i p)
  show ?case
  proof (cases "\<exists>xs. x = PyTuple xs \<or> x = PyList xs")
    case True
    then obtain xs where x: "x = PyTuple xs \<or> x = PyList xs" by blast
    with Cons.prems(1) have "map_only cls compute_custom_key xs = Inr v"
      by (auto simp del: map_only.simps)
    then obtain vs where v: "v = PyTuple vs"
      and vs: "map_only_elems cls compute_custom_key xs = Inr vs"
      by (auto dest: map_only_Inr simp del: map_only.simps)
    from Cons.prems(2) v have i: "i < length vs" and sub: "subscript_path (vs ! i) p = Some z"
      by (auto split: if_splits)
    from map_only_elems_nth [OF vs] i
    have "map_only_elem cls compute_custom_key (xs ! i) = Inr (vs ! i)" by auto
    from Cons.IH [OF this sub] show ?thesis .
  next
    case False
    with Cons.prems(1) have "v = x \<or> (\<exists>f. v = stable_identity f)"
      by (cases x) (auto split: if_splits dest: compute_custom_key_Inr)
    then show ?thesis
    proof
      assume "v = x"
      with False Cons.prems(2) show ?thesis by (cases x) auto
    next
      assume "\<exists>f. v = stable_identity f"
      then obtain f :: py_function where
        "v = PyTuple [PyStr (fn_module f), PyStr (fn_qualname f)]"
        by (auto simp: stable_identity_def)
      with Cons.prems(2) show ?thesis
        by (cases p) (auto split: if_splits simp: nth_Cons split: nat.splits)
    qed
  qed
qed

lemma map_only_no_list:
  "map_only cls compute_custom_key xs = Inr v \<Longrightarrow> subscript_path v p = Some z \<Longrightarrow>
     z \<noteq> PyList zs"
  using map_only_elem_no_list [of cls "PyTuple xs" v p z zs]
  by (simp del: map_only.simps)

lemma scan_plug_container:
  "any_py (map is_first_class_function (pre @ plug c (PyTuple ys) # post))
     = any_py (map is_first_class_function (pre @ plug c (PyList ys) # post))"
  using is_first_class_function_plug [of "PyTuple ys" "PyList ys" "InTuple pre c post"]
  by simp

lemma map_only_plug_container:
  "map_only cls f (pre @ plug c (PyTuple ys) # post)
     = map_only cls f (pre @ plug c (PyList ys) # post)"
  by (rule map_only_plug) simp

lemma digest_closure_run:
  assumes "closure self = Some cvars" and "any_py (map is_first_class_function cvars)"
  shows "digest_closure env self key =
     (case map_only dispatcher_Dispatcher compute_custom_key cvars of
        Inl e \<Rightarrow> Inl e
      | Inr cvars' \<Rightarrow>
          (case dumps env cvars' of
             Inl e \<Rightarrow> Inl e
           | Inr cvarbytes \<Rightarrow>
               (case last_first key of
                  Inl e \<Rightarrow> Inl e
                | Inr h \<Rightarrow> Inr (butlast key @ [h, PyStr (hasher env cvarbytes)]))))"
  using assms by (simp add: digest_closure_def del: map_only.simps)

lemma digest_closure_cong:
  assumes "closure self1 = Some cvars1" and "closure self2 = Some cvars2"
    and "any_py (map is_first_class_function cvars1)"
    and "any_py (map is_first_class_function cvars2)"
    and "map_only dispatcher_Dispatcher compute_custom_key cvars1
       = map_only dispatcher_Dispatcher compute_custom_key cvars2"
    and "butlast key1 = butlast key2"
    and "last_first key1 = last_first key2"
  shows "digest_closure env self1 key1 = digest_closure env self2 key2"
  unfolding digest_closure_run [OF assms(1,3)] digest_closure_run [OF assms(2,4)]
  unfolding assms(5,6,7) ..

lemma last_first_snoc: "last_first (ks @ [l]) = subscript0 l"
  by (simp add: last_first_def)

lemma rewrite_signature_snoc:
  assumes "subscript0 l1 = subscript0 l2"
  shows "(\<exists>e. rewrite_signature sig (ks @ [l1]) = Inl e
            \<and> rewrite_signature sig (ks @ [l2]) = Inl e)
       \<or> (\<exists>k1 k2. rewrite_signature sig (ks @ [l1]) = Inr k1
            \<and> rewrite_signature sig (ks @ [l2]) = Inr k2
            \<and> butlast k1 = butlast k2 \<and> last_first k1 = last_first k2)"
proof (cases "any_py (map is_first_class_function sig)")
  case False
  then have "rewrite_signature sig k = Inr k" for k
    by (simp add: rewrite_signature_def)
  with assms show ?thesis
    by (simp add: last_first_snoc)
next
  case True
  show ?thesis
  proof (cases "map_only types_Dispatcher compute_custom_key sig")
    case (Inl e)
    with True have "rewrite_signature sig k = Inl e" for k
      by (simp add: rewrite_signature_def del: map_only.simps)
    then show ?thesis by simp
  next
    case (Inr s)
    with True have rw: "rewrite_signature sig k = Inr (s # drop 1 k)" for k
      by (simp add: rewrite_signature_def del: map_only.simps)
    show ?thesis
    proof (cases ks)
      case Nil
      with rw show ?thesis by simp
    next
      case (Cons k0 ks')
      have "s # drop 1 (ks @ [l]) = (s # ks') @ [l]" for l
        using Cons by simp
      with rw have "rewrite_signature sig (ks @ [l]) = Inr ((s # ks') @ [l])" for l
        by simp
      with assms show ?thesis
        by (simp add: last_first_def)
    qed
  qed
qed

text \<open>
  C10, container canonicalization. (1) In what \<open>map_only\<close> returns with
  \<^verbatim>\<open>_compute_custom_key\<close>, no position reached by subscripts holds a list: every tuple and
  list it went through is rebuilt as a tuple. (2) Two signatures that differ only in having
  a tuple or a list, with the same elements, at one position, and in which the scan finds a
  reference, get the same result from \<^verbatim>\<open>_index_key\<close> where their base keys agree beyond the
  leading element. (3) Two cache objects whose closure contents differ only in that way,
  and hold a reference, get the same result where their base keys agree up to the final
  element and the final elements have the same first component.
\<close>

theorem container_canonicalization:
  "(map_only cls compute_custom_key xs = Inr v \<and> subscript_path v p = Some z
      \<longrightarrow> (\<forall>zs. z \<noteq> PyList zs))
   \<and> (any_py (map is_first_class_function (pre @ plug c (PyTuple ys) # post))
        \<and> super_index_key env self (pre @ plug c (PyTuple ys) # post) codegen = Inr key_t
        \<and> super_index_key env self (pre @ plug c (PyList ys) # post) codegen = Inr key_l
        \<and> drop 1 key_t = drop 1 key_l
      \<longrightarrow> index_key env self (pre @ plug c (PyTuple ys) # post) codegen
          = index_key env self (pre @ plug c (PyList ys) # post) codegen)
   \<and> (closure self_t = Some (pre @ plug c (PyTuple ys) # post)
        \<and> closure self_l = Some (pre @ plug c (PyList ys) # post)
        \<and> any_py (map is_first_class_function (pre @ plug c (PyTuple ys) # post))
        \<and> super_index_key env self_t sig codegen = Inr (ks @ [last_t])
        \<and> super_index_key env self_l sig codegen = Inr (ks @ [last_l])
        \<and> subscript0 last_t = subscript0 last_l
      \<longrightarrow> index_key env self_t sig codegen = index_key env self_l sig codegen)"
proof (intro conjI impI)
  assume "map_only cls compute_custom_key xs = Inr v \<and> subscript_path v p = Some z"
  then show "\<forall>zs. z \<noteq> PyList zs"
    using map_only_no_list by blast
next
  let ?st = "pre @ plug c (PyTuple ys) # post"
  let ?sl = "pre @ plug c (PyList ys) # post"
  assume a: "any_py (map is_first_class_function ?st)
      \<and> super_index_key env self ?st codegen = Inr key_t
      \<and> super_index_key env self ?sl codegen = Inr key_l
      \<and> drop 1 key_t = drop 1 key_l"
  then have scan_l: "any_py (map is_first_class_function ?sl)"
    using scan_plug_container by simp
  have "rewrite_signature ?st key_t = rewrite_signature ?sl key_l"
    using a scan_l map_only_plug_container
    by (intro rewrite_signature_cong) simp_all
  with a show "index_key env self ?st codegen = index_key env self ?sl codegen"
    by (simp add: index_key_def)
next
  let ?ct = "pre @ plug c (PyTuple ys) # post"
  let ?cl = "pre @ plug c (PyList ys) # post"
  assume a: "closure self_t = Some ?ct \<and> closure self_l = Some ?cl
      \<and> any_py (map is_first_class_function ?ct)
      \<and> super_index_key env self_t sig codegen = Inr (ks @ [last_t])
      \<and> super_index_key env self_l sig codegen = Inr (ks @ [last_l])
      \<and> subscript0 last_t = subscript0 last_l"
  then have scan_l: "any_py (map is_first_class_function ?cl)"
    using scan_plug_container by simp
  have dc: "digest_closure env self_t k1 = digest_closure env self_l k2"
    if "butlast k1 = butlast k2" "last_first k1 = last_first k2" for k1 k2
    using a scan_l map_only_plug_container that
    by (intro digest_closure_cong [of self_t ?ct self_l ?cl]) simp_all
  from a have "subscript0 last_t = subscript0 last_l" by simp
  from rewrite_signature_snoc [OF this, of sig ks]
  have "(case rewrite_signature sig (ks @ [last_t]) of
           Inl e \<Rightarrow> Inl e | Inr key1 \<Rightarrow> digest_closure env self_t key1)
      = (case rewrite_signature sig (ks @ [last_l]) of
           Inl e \<Rightarrow> Inl e | Inr key1 \<Rightarrow> digest_closure env self_l key1)"
    using dc by auto
  with a show "index_key env self_t sig codegen = index_key env self_l sig codegen"
    by (simp add: index_key_def)
qed

theorem container_canonicalization_witness:
  "map_only types_Dispatcher compute_custom_key [PyList [square_type, PyList [PyOther 1]]]
     = Inr (PyTuple [PyTuple [stable_identity square_func, PyTuple [PyOther 1]]])
   \<and> subscript_path (PyTuple [PyTuple [stable_identity square_func, PyTuple [PyOther 1]]]) [0, 1]
     = Some (PyTuple [PyOther 1])
   \<and> (\<forall>zs. PyTuple [PyOther 1] \<noteq> PyList zs)
   \<and> any_py (map is_first_class_function ([PyOther 0] @ plug Hole (PyTuple [square_type]) # []))
   \<and> index_key example_env \<lparr>closure = None\<rparr>
        ([PyOther 0] @ plug Hole (PyTuple [square_type]) # []) (PyOther 9)
     = index_key example_env \<lparr>closure = None\<rparr>
        ([PyOther 0] @ plug Hole (PyList [square_type]) # []) (PyOther 9)
   \<and> index_key example_env \<lparr>closure = None\<rparr>
        ([PyOther 0] @ plug Hole (PyList [square_type]) # []) (PyOther 9)
     = Inr [PyTuple [PyOther 0, PyTuple [stable_identity square_func]], PyOther 9,
            PyTuple [PyStr ''c0de'', PyStr ''#'']]
   \<and> super_index_key example_env \<lparr>closure = Some ([] @ plug Hole (PyTuple [square_obj]) # [])\<rparr>
        [PyOther 0] (PyOther 9)
     = Inr ([PyTuple [PyOther 0], PyOther 9] @ [PyTuple [PyStr ''c0de'', PyStr ''#((<obj>))'']])
   \<and> super_index_key example_env \<lparr>closure = Some ([] @ plug Hole (PyList [square_obj]) # [])\<rparr>
        [PyOther 0] (PyOther 9)
     = Inr ([PyTuple [PyOther 0], PyOther 9] @ [PyTuple [PyStr ''c0de'', PyStr ''#([<obj>])'']])
   \<and> index_key example_env \<lparr>closure = Some ([] @ plug Hole (PyTuple [square_obj]) # [])\<rparr>
        [PyOther 0] (PyOther 9)
     = index_key example_env \<lparr>closure = Some ([] @ plug Hole (PyList [square_obj]) # [])\<rparr>
        [PyOther 0] (PyOther 9)
   \<and> index_key example_env \<lparr>closure = Some ([] @ plug Hole (PyList [square_obj]) # [])\<rparr>
        [PyOther 0] (PyOther 9)
     = Inr [PyTuple [PyOther 0], PyOther 9, PyStr ''c0de'', PyStr ''#(((m,square,)))'']"
proof -
  let ?v = "PyTuple [PyTuple [stable_identity square_func, PyTuple [PyOther 1]]]"
  let ?st = "[PyOther 0] @ plug Hole (PyTuple [square_type]) # []"
  let ?sl = "[PyOther 0] @ plug Hole (PyList [square_type]) # []"
  let ?self_t = "\<lparr>closure = Some ([] @ plug Hole (PyTuple [square_obj]) # [])\<rparr>"
  let ?self_l = "\<lparr>closure = Some ([] @ plug Hole (PyList [square_obj]) # [])\<rparr>"
  let ?ks = "[PyTuple [PyOther 0], PyOther 9]"
  let ?lt = "PyTuple [PyStr ''c0de'', PyStr ''#((<obj>))'']"
  let ?ll = "PyTuple [PyStr ''c0de'', PyStr ''#([<obj>])'']"
  have a1: "map_only types_Dispatcher compute_custom_key [PyList [square_type, PyList [PyOther 1]]]
      = Inr ?v"
    by (simp add: square_type_def compute_custom_key_def)
  have a2: "subscript_path ?v [0, 1] = Some (PyTuple [PyOther 1])"
    by simp
  have b1: "any_py (map is_first_class_function ?st)"
    by (simp add: square_type_def)
  have b2: "super_index_key example_env \<lparr>closure = None\<rparr> ?st (PyOther 9)
      = Inr [PyTuple ?st, PyOther 9, PyTuple [PyStr ''c0de'', PyStr ''#'']]"
    and b3: "super_index_key example_env \<lparr>closure = None\<rparr> ?sl (PyOther 9)
      = Inr [PyTuple ?sl, PyOther 9, PyTuple [PyStr ''c0de'', PyStr ''#'']]"
    by (simp_all add: example_env_def)
  have c1: "closure ?self_t = Some ([] @ plug Hole (PyTuple [square_obj]) # [])"
    and c2: "closure ?self_l = Some ([] @ plug Hole (PyList [square_obj]) # [])"
    by simp_all
  have c3: "any_py (map is_first_class_function ([] @ plug Hole (PyTuple [square_obj]) # []))"
    by (simp add: square_obj_def square_type_def)
  have c4: "super_index_key example_env ?self_t [PyOther 0] (PyOther 9) = Inr (?ks @ [?lt])"
    and c5: "super_index_key example_env ?self_l [PyOther 0] (PyOther 9) = Inr (?ks @ [?ll])"
    by (simp_all add: example_env_def square_obj_def)
  have c6: "subscript0 ?lt = subscript0 ?ll"
    by simp
  note thm1 = container_canonicalization [of types_Dispatcher
      "[PyList [square_type, PyList [PyOther 1]]]" ?v "[0, 1]" "PyTuple [PyOther 1]"
      "[PyOther 0]" Hole "[square_type]" "[]" example_env "\<lparr>closure = None\<rparr>" "PyOther 9"
      "[PyTuple ?st, PyOther 9, PyTuple [PyStr ''c0de'', PyStr ''#'']]"
      "[PyTuple ?sl, PyOther 9, PyTuple [PyStr ''c0de'', PyStr ''#'']]"]
  note thm2 = container_canonicalization [of types_Dispatcher "[]" "PyTuple []" "[]" "PyTuple []"
      "[]" Hole "[square_obj]" "[]" example_env "\<lparr>closure = None\<rparr>" "PyOther 9" "[]" "[]"
      ?self_t ?self_l "[PyOther 0]" ?ks ?lt ?ll]
  have r1: "\<forall>zs. PyTuple [PyOther 1] \<noteq> PyList zs"
    by (rule thm1 [THEN conjunct1, THEN mp]) (intro conjI a1 a2)
  have r2: "index_key example_env \<lparr>closure = None\<rparr> ?st (PyOther 9)
      = index_key example_env \<lparr>closure = None\<rparr> ?sl (PyOther 9)"
    by (rule thm1 [THEN conjunct2, THEN conjunct1, THEN mp]) (intro conjI b1 b2 b3, simp)
  have r3: "index_key example_env ?self_t [PyOther 0] (PyOther 9)
      = index_key example_env ?self_l [PyOther 0] (PyOther 9)"
    by (rule thm2 [THEN conjunct2, THEN conjunct2, THEN mp]) (intro conjI c1 c2 c3 c4 c5 c6)
  have v2: "index_key example_env \<lparr>closure = None\<rparr> ?sl (PyOther 9)
      = Inr [PyTuple [PyOther 0, PyTuple [stable_identity square_func]], PyOther 9,
            PyTuple [PyStr ''c0de'', PyStr ''#'']]"
    by (simp add: example_env_def square_type_def index_key_def rewrite_signature_def
        digest_closure_def compute_custom_key_def)
  have v3: "index_key example_env ?self_l [PyOther 0] (PyOther 9)
      = Inr [PyTuple [PyOther 0], PyOther 9, PyStr ''c0de'', PyStr ''#(((m,square,)))'']"
    by (simp add: example_defs index_key_def rewrite_signature_def
        digest_closure_def compute_custom_key_def stable_identity_def last_first_def)
  from a1 a2 r1 b1 r2 v2 c4 c5 r3 v3 show ?thesis
    by (intro conjI)
qed

section \<open>Which references each step replaces\<close>



section \<open>References nested in containers\<close>

text \<open>
  C6, nesting: the claim as stated fails on the container type descriptor of the host
  compiler. A \<^verbatim>\<open>types.Tuple\<close> is not a Python tuple or list, so neither the scan (line 51)
  nor \<^verbatim>\<open>map_only\<close> (line 70) looks inside it: with the signature
  \<^verbatim>\<open>(int64, Tuple(square))\<close> the scan finds nothing and the key returned is the base key,
  whose signature still holds the descriptor.
\<close>

theorem reference_in_tuple_type_not_detected:
  "\<not> any_py (map is_first_class_function [ScalarType 0, TupleType [square_type]])
   \<and> index_key example_env \<lparr>closure = None\<rparr> [ScalarType 0, TupleType [square_type]] (PyOther 9)
     = Inr [PyTuple [ScalarType 0, TupleType [square_type]], PyOther 9,
            PyTuple [PyStr ''c0de'', PyStr ''#'']]
   \<and> index_key example_env \<lparr>closure = None\<rparr> [ScalarType 0, TupleType [square_type]] (PyOther 9)
     = super_index_key example_env \<lparr>closure = None\<rparr> [ScalarType 0, TupleType [square_type]]
         (PyOther 9)"
  by (simp add: example_env_def index_key_def rewrite_signature_def digest_closure_def)

text \<open>
  C6 as amended. A \<^verbatim>\<open>types.Dispatcher\<close> descriptor at any position of the signature reached
  through Python tuples and lists, at the top level (a path of one subscript) or nested,
  is found by the scan; with a base key of at least two elements, the leading element of
  the key \<^verbatim>\<open>_index_key\<close> returns is the rewritten signature, and that position of it holds
  the pair (module path, qualified name) of the descriptor's own function, whatever the
  depth.
\<close>

theorem nested_reference_rewritten:
  assumes "subscript_path (PyTuple sig) p = Some (DispatcherType n a)"
    and "super_index_key env self sig codegen = Inr key0"
    and "2 \<le> length key0"
    and "index_key env self sig codegen = Inr key"
  shows "any_py (map is_first_class_function sig)
     \<and> (\<exists>f sig'. (py_func a = Some f \<or> py_func a = None \<and> key_attr a = KeyReturns (Some f))
          \<and> hd key = PyTuple sig'
          \<and> length sig' = length sig
          \<and> subscript_path (PyTuple sig') p
              = Some (PyTuple [PyStr (fn_module f), PyStr (fn_qualname f)]))"
proof -
  have scan: "any_py (map is_first_class_function sig)"
    using scan_path [OF assms(1)] by simp
  have m: "map_only types_Dispatcher compute_custom_key sig = Inr (hd key)"
    by (rule index_key_hd [OF assms(4,2,3) scan])
  from map_only_length [OF m] obtain sig' where
    v: "hd key = PyTuple sig'" and len: "length sig' = length sig"
    by blast
  from map_only_path [OF m assms(1)] obtain w where
    w: "compute_custom_key (DispatcherType n a) = Inr w" "subscript_path (hd key) p = Some w"
    by auto
  from compute_custom_key_descriptor [OF w(1)] w(2) v len scan show ?thesis
    by auto
qed

theorem nested_reference_rewritten_witness:
  "subscript_path (PyTuple [ScalarType 0, PyTuple [ScalarType 1, PyList [square_type]]]) [1, 1, 0]
     = Some square_type
   \<and> subscript_path (PyTuple [square_type, ScalarType 0]) [0] = Some square_type
   \<and> index_key example_env \<lparr>closure = Some [square_obj]\<rparr>
        [ScalarType 0, PyTuple [ScalarType 1, PyList [square_type]]] (PyOther 9)
     = Inr [PyTuple [ScalarType 0, PyTuple [ScalarType 1, PyTuple [PyTuple [PyStr ''m'', PyStr ''square'']]]],
            PyOther 9, PyStr ''c0de'', PyStr ''#((m,square,))'']
   \<and> index_key example_env \<lparr>closure = Some [square_obj]\<rparr>
        [square_type, ScalarType 0] (PyOther 9)
     = Inr [PyTuple [PyTuple [PyStr ''m'', PyStr ''square''], ScalarType 0],
            PyOther 9, PyStr ''c0de'', PyStr ''#((m,square,))'']
   \<and> any_py (map is_first_class_function [ScalarType 0, PyTuple [ScalarType 1, PyList [square_type]]])
   \<and> (\<exists>sig'. PyTuple [ScalarType 0, PyTuple [ScalarType 1, PyTuple [PyTuple [PyStr ''m'', PyStr ''square'']]]]
               = PyTuple sig'
         \<and> subscript_path (PyTuple sig') [1, 1, 0] = Some (PyTuple [PyStr ''m'', PyStr ''square'']))
   \<and> (\<exists>sig'. PyTuple [PyTuple [PyStr ''m'', PyStr ''square''], ScalarType 0] = PyTuple sig'
         \<and> subscript_path (PyTuple sig') [0] = Some (PyTuple [PyStr ''m'', PyStr ''square'']))"
proof -
  let ?a = "\<lparr>py_func = None, key_attr = KeyReturns (Some square_func)\<rparr>"
  let ?nested = "[ScalarType 0, PyTuple [ScalarType 1, PyList [DispatcherType 1 ?a]]]"
  let ?top = "[DispatcherType 1 ?a, ScalarType 0]"
  let ?self = "\<lparr>closure = Some [square_obj]\<rparr>"
  let ?last = "PyTuple [PyStr ''c0de'', PyStr ''#(<obj>)'']"
  let ?pair = "PyTuple [PyStr ''m'', PyStr ''square'']"
  let ?kn = "[PyTuple [ScalarType 0, PyTuple [ScalarType 1, PyTuple [?pair]]],
            PyOther 9, PyStr ''c0de'', PyStr ''#((m,square,))'']"
  let ?kt = "[PyTuple [?pair, ScalarType 0], PyOther 9, PyStr ''c0de'', PyStr ''#((m,square,))'']"
  have n1: "subscript_path (PyTuple ?nested) [1, 1, 0] = Some (DispatcherType 1 ?a)"
    and t1: "subscript_path (PyTuple ?top) [0] = Some (DispatcherType 1 ?a)"
    by simp_all
  have n2: "super_index_key example_env ?self ?nested (PyOther 9)
      = Inr [PyTuple ?nested, PyOther 9, ?last]"
    and t2: "super_index_key example_env ?self ?top (PyOther 9)
      = Inr [PyTuple ?top, PyOther 9, ?last]"
    by (simp_all add: example_env_def square_obj_def)
  have n4: "index_key example_env ?self ?nested (PyOther 9) = Inr ?kn"
    and t4: "index_key example_env ?self ?top (PyOther 9) = Inr ?kt"
    by (simp_all add: example_defs index_key_def rewrite_signature_def digest_closure_def
        compute_custom_key_def stable_identity_def last_first_def)
  from nested_reference_rewritten [OF n1 n2 _ n4]
  have rn: "any_py (map is_first_class_function ?nested)
      \<and> (\<exists>sig'. hd ?kn = PyTuple sig' \<and> subscript_path (PyTuple sig') [1, 1, 0] = Some ?pair)"
    by (auto simp: square_func_def)
  from nested_reference_rewritten [OF t1 t2 _ t4]
  have rt: "\<exists>sig'. hd ?kt = PyTuple sig' \<and> subscript_path (PyTuple sig') [0] = Some ?pair"
    by (auto simp: square_func_def)
  from n1 t1 n4 t4 rn rt show ?thesis
    unfolding square_type_def by simp
qed

end
